theory Spec2Isabelle
  imports Complex_Main
begin

section \<open>JavaScript values used by the toolkit\<close>

subsection \<open>Numbers\<close>

text \<open>
  A JavaScript \<^verbatim>\<open>number\<close> is an IEEE 754 double: not-a-number, one of the two
  infinities, or a finite value. A finite double is kept as the rational it denotes,
  and every operation that produces one rounds its exact result to the nearest double
  with \<open>fl\<close> below. The one thing left out is the sign of zero: \<^verbatim>\<open>-0\<close> and
  \<^verbatim>\<open>0\<close> are the same \<open>Fin 0\<close>.
\<close>

datatype number = NaN | PInf | NInf | Fin rat

text \<open>The number of binary digits of a natural number.\<close>

fun bitLength :: "nat \<Rightarrow> nat" where
  "bitLength n = (if n = 0 then 0 else Suc (bitLength (n div 2)))"

declare bitLength.simps [simp del]

definition pow2 :: "int \<Rightarrow> rat" where
  "pow2 e = (if 0 \<le> e then 2 ^ nat e else 1 / 2 ^ nat (- e))"

text \<open>For a positive \<open>a\<close>, the exponent \<open>e\<close> with \<open>2 ^ e \<le> a < 2 ^ (e + 1)\<close>.\<close>

definition floorLog2 :: "rat \<Rightarrow> int" where
  "floorLog2 a =
     (if 1 \<le> a then int (bitLength (nat \<lfloor>a\<rfloor>)) - 1
      else - int (bitLength (nat (\<lceil>1 / a\<rceil> - 1))))"

text \<open>Rounding to the nearest integer, a tie going to the even one: \<open>f\<close> is the
  integer below and \<open>d\<close> the distance to it.\<close>

definition tieToEven :: "int \<Rightarrow> rat \<Rightarrow> int" where
  "tieToEven f d =
     (if d < 1 / 2 then f else if 1 / 2 < d then f + 1 else if even f then f else f + 1)"

definition roundHalfEven :: "rat \<Rightarrow> int" where
  "roundHalfEven q = tieToEven \<lfloor>q\<rfloor> (q - of_int \<lfloor>q\<rfloor>)"

text \<open>The multiple of the unit \<open>u\<close> nearest to \<open>a\<close>.\<close>

definition quantize :: "rat \<Rightarrow> rat \<Rightarrow> rat" where
  "quantize a u = of_int (roundHalfEven (a / u)) * u"

text \<open>A rounded magnitude of \<open>2 ^ 1024\<close> or more is an infinity.\<close>

definition overflow :: "bool \<Rightarrow> rat \<Rightarrow> number" where
  "overflow neg v =
     (if 2 ^ 1024 \<le> v then (if neg then NInf else PInf) else Fin (if neg then - v else v))"

text \<open>
  The double nearest to a rational, ties to even. A double has 53 significant bits:
  between \<open>2 ^ e\<close> and \<open>2 ^ (e + 1)\<close> the doubles are the multiples of
  \<open>2 ^ (e - 52)\<close>, and below \<open>2 ^ (- 1022)\<close> (the subnormal range) the multiples of
  \<open>2 ^ (- 1074)\<close>.
\<close>

definition fl :: "rat \<Rightarrow> number" where
  "fl r =
     (if r = 0 then Fin 0
      else overflow (r < 0) (quantize \<bar>r\<bar> (pow2 (max (floorLog2 \<bar>r\<bar>) (- 1022) - 52))))"

text \<open>\<^verbatim>\<open>a + b\<close> on numbers.\<close>

fun js_add :: "number \<Rightarrow> number \<Rightarrow> number" where
  "js_add NaN y = NaN"
| "js_add x NaN = NaN"
| "js_add PInf NInf = NaN"
| "js_add NInf PInf = NaN"
| "js_add PInf y = PInf"
| "js_add NInf y = NInf"
| "js_add x PInf = PInf"
| "js_add x NInf = NInf"
| "js_add (Fin a) (Fin b) = fl (a + b)"

text \<open>\<^verbatim>\<open>a / b\<close>: dividing by zero gives an infinity, or \<^verbatim>\<open>NaN\<close> for \<^verbatim>\<open>0 / 0\<close>.\<close>

fun js_div :: "number \<Rightarrow> number \<Rightarrow> number" where
  "js_div NaN y = NaN"
| "js_div x NaN = NaN"
| "js_div (Fin a) (Fin b) =
     (if b = 0 then (if a = 0 then NaN else if 0 < a then PInf else NInf)
      else fl (a / b))"
| "js_div (Fin a) y = Fin 0"
| "js_div PInf (Fin b) = (if b < 0 then NInf else PInf)"
| "js_div NInf (Fin b) = (if b < 0 then PInf else NInf)"
| "js_div x y = NaN"

text \<open>\<^verbatim>\<open>a * b\<close>.\<close>

fun js_mul :: "number \<Rightarrow> number \<Rightarrow> number" where
  "js_mul NaN y = NaN"
| "js_mul x NaN = NaN"
| "js_mul (Fin a) (Fin b) = fl (a * b)"
| "js_mul (Fin a) PInf = (if a = 0 then NaN else if 0 < a then PInf else NInf)"
| "js_mul (Fin a) NInf = (if a = 0 then NaN else if 0 < a then NInf else PInf)"
| "js_mul PInf (Fin b) = (if b = 0 then NaN else if 0 < b then PInf else NInf)"
| "js_mul NInf (Fin b) = (if b = 0 then NaN else if 0 < b then NInf else PInf)"
| "js_mul PInf PInf = PInf"
| "js_mul NInf NInf = PInf"
| "js_mul x y = NInf"

text \<open>\<^verbatim>\<open>a > b\<close>: false as soon as one side is \<^verbatim>\<open>NaN\<close>.\<close>

fun js_gt :: "number \<Rightarrow> number \<Rightarrow> bool" where
  "js_gt NaN y = False"
| "js_gt x NaN = False"
| "js_gt (Fin a) (Fin b) = (b < a)"
| "js_gt PInf PInf = False"
| "js_gt PInf y = True"
| "js_gt x NInf = (x \<noteq> NInf)"
| "js_gt x y = False"

text \<open>\<^verbatim>\<open>Math.min(a, b)\<close>: \<^verbatim>\<open>NaN\<close> as soon as one argument is.\<close>

fun Math_min :: "number \<Rightarrow> number \<Rightarrow> number" where
  "Math_min NaN y = NaN"
| "Math_min x NaN = NaN"
| "Math_min NInf y = NInf"
| "Math_min x NInf = NInf"
| "Math_min PInf y = y"
| "Math_min x PInf = x"
| "Math_min (Fin a) (Fin b) = Fin (min a b)"

subsection \<open>Strings\<close>

text \<open>
  A string is a list of characters, each one UTF-16 code unit below 256 (the texts
  handled here, addresses and numerals, are ASCII). \<^verbatim>\<open>s.slice(2)\<close> is
  \<^term>\<open>drop 2 s\<close> and \<^verbatim>\<open>s.substr(2, 40)\<close> is \<^term>\<open>take 40 (drop 2 s)\<close>.
\<close>

text \<open>\<^verbatim>\<open>s.padStart(n, c)\<close> for a one-character filler: a string already \<open>n\<close> long
  or longer is returned as it is.\<close>

definition padStart :: "nat \<Rightarrow> char \<Rightarrow> string \<Rightarrow> string" where
  "padStart n c s = replicate (n - length s) c @ s"

text \<open>The white space that \<^verbatim>\<open>parseInt\<close> and \<^verbatim>\<open>parseFloat\<close> skip, among the code
  units below 256: tab, line feed, vertical tab, form feed, carriage return, space and
  the no-break space.\<close>

definition isWhiteSpaceCode :: "nat \<Rightarrow> bool" where
  "isWhiteSpaceCode n = (n = 32 \<or> (9 \<le> n \<and> n \<le> 13) \<or> n = 160)"

definition isWhiteSpace :: "char \<Rightarrow> bool" where
  "isWhiteSpace c = isWhiteSpaceCode (of_char c)"

text \<open>The value of a character as a digit, up to base 16, in either case.\<close>

definition digitOfCode :: "nat \<Rightarrow> nat option" where
  "digitOfCode n =
     (if 48 \<le> n \<and> n \<le> 57 then Some (n - 48)
      else if 97 \<le> n \<and> n \<le> 102 then Some (n - 87)
      else if 65 \<le> n \<and> n \<le> 70 then Some (n - 55)
      else None)"

definition digitValue :: "char \<Rightarrow> nat option" where
  "digitValue c = digitOfCode (of_char c)"

definition isDigit :: "nat \<Rightarrow> char \<Rightarrow> bool" where
  "isDigit R c = (case digitValue c of None \<Rightarrow> False | Some d \<Rightarrow> d < R)"

text \<open>The number a digit string denotes in base \<open>R\<close>, most significant digit first.\<close>

definition digitsValue :: "nat \<Rightarrow> string \<Rightarrow> nat" where
  "digitsValue R z =
     foldl (\<lambda>acc c. acc * R + (case digitValue c of None \<Rightarrow> 0 | Some d \<Rightarrow> d)) 0 z"

text \<open>A leading sign: whether it is a minus, and the text after it.\<close>

fun splitSign :: "string \<Rightarrow> bool \<times> string" where
  "splitSign [] = (False, [])"
| "splitSign (c # r) =
     (if c = CHR ''-'' then (True, r)
      else if c = CHR ''+'' then (False, r)
      else (False, c # r))"

text \<open>
  \<^verbatim>\<open>parseInt(s)\<close> without a radix: skip leading white space, read a sign, read a
  \<^verbatim>\<open>0x\<close> or \<^verbatim>\<open>0X\<close> prefix (then base 16, else base 10), and take the longest
  run of digits of that base. No digit at all gives \<^verbatim>\<open>NaN\<close>; whatever follows the
  digits is ignored. The result is a number: the integer read, rounded to the nearest
  double, hence an infinity when there are more than 309 decimal digits or so.
\<close>

definition intValue :: "bool \<Rightarrow> nat \<Rightarrow> string \<Rightarrow> number" where
  "intValue neg R z =
     (if z = [] then NaN
      else fl (of_int ((if neg then - 1 else 1) * int (digitsValue R z))))"

fun readInt :: "bool \<times> string \<Rightarrow> number" where
  "readInt (neg, u) =
     (if take 2 u = ''0x'' \<or> take 2 u = ''0X''
      then intValue neg 16 (takeWhile (isDigit 16) (drop 2 u))
      else intValue neg 10 (takeWhile (isDigit 10) u))"

definition parseInt :: "string \<Rightarrow> number" where
  "parseInt s = readInt (splitSign (dropWhile isWhiteSpace s))"

text \<open>
  \<^verbatim>\<open>parseFloat(s)\<close>: skip leading white space, read a sign, then \<^verbatim>\<open>Infinity\<close>
  or the longest decimal literal (digits, an optional point and digits, an optional
  exponent). A text with no digit is \<^verbatim>\<open>NaN\<close>. \<open>readDecimal\<close> gives the exact value
  of the literal; the number is that value rounded to the nearest double.
\<close>

definition scale10 :: "rat \<Rightarrow> int \<Rightarrow> rat" where
  "scale10 m e = (if 0 \<le> e then m * 10 ^ nat e else m / 10 ^ nat (- e))"

definition exponentValue :: "bool \<Rightarrow> string \<Rightarrow> int" where
  "exponentValue neg ed =
     (if ed = [] then 0 else (if neg then - 1 else 1) * int (digitsValue 10 ed))"

fun signedExponent :: "bool \<times> string \<Rightarrow> int" where
  "signedExponent (neg, u) = exponentValue neg (takeWhile (isDigit 10) u)"

fun exponentPart :: "string \<Rightarrow> int" where
  "exponentPart [] = 0"
| "exponentPart (c # t) =
     (if c = CHR ''e'' \<or> c = CHR ''E'' then signedExponent (splitSign t) else 0)"

definition afterFraction :: "string \<Rightarrow> string \<Rightarrow> string \<Rightarrow> rat option" where
  "afterFraction ip fp r2 =
     (if ip = [] \<and> fp = [] then None
      else Some (scale10 (of_nat (digitsValue 10 (ip @ fp)) / 10 ^ length fp)
                   (exponentPart r2)))"

definition afterInteger :: "string \<Rightarrow> string \<Rightarrow> rat option" where
  "afterInteger ip r1 =
     (if r1 \<noteq> [] \<and> hd r1 = CHR ''.''
      then afterFraction ip (takeWhile (isDigit 10) (tl r1)) (dropWhile (isDigit 10) (tl r1))
      else afterFraction ip [] r1)"

definition readDecimal :: "string \<Rightarrow> rat option" where
  "readDecimal u = afterInteger (takeWhile (isDigit 10) u) (dropWhile (isDigit 10) u)"

fun signedValue :: "bool \<Rightarrow> rat option \<Rightarrow> number" where
  "signedValue neg None = NaN"
| "signedValue neg (Some v) = fl (if neg then - v else v)"

fun readFloat :: "bool \<times> string \<Rightarrow> number" where
  "readFloat (neg, u) =
     (if take 8 u = ''Infinity'' then (if neg then NInf else PInf)
      else signedValue neg (readDecimal u))"

definition parseFloat :: "string \<Rightarrow> number" where
  "parseFloat s = readFloat (splitSign (dropWhile isWhiteSpace s))"

subsection \<open>Numbers as text\<close>

text \<open>The number of decimal digits of a natural number, and the digits.\<close>

fun digits10 :: "nat \<Rightarrow> nat" where
  "digits10 n = (if n < 10 then 1 else Suc (digits10 (n div 10)))"

declare digits10.simps [simp del]

fun decDigits :: "nat \<Rightarrow> string" where
  "decDigits n =
     (if n < 10 then [''0123456789'' ! n]
      else decDigits (n div 10) @ [''0123456789'' ! (n mod 10)])"

declare decDigits.simps [simp del]

definition pow10 :: "int \<Rightarrow> rat" where
  "pow10 e = (if 0 \<le> e then 10 ^ nat e else 1 / 10 ^ nat (- e))"

text \<open>For a positive \<open>x\<close>, the \<open>n\<close> with \<open>10 ^ (n - 1) \<le> x < 10 ^ n\<close>.\<close>

definition decimalPoint :: "rat \<Rightarrow> int" where
  "decimalPoint x =
     (if 1 \<le> x then int (digits10 (nat \<lfloor>x\<rfloor>))
      else 1 - int (digits10 (nat (\<lceil>1 / x\<rceil> - 1))))"

text \<open>
  \<^verbatim>\<open>x.toString()\<close> writes the shortest decimal digits that read back as \<open>x\<close>.
  With \<open>k\<close> digits at the scale \<open>sc\<close>, the candidates are the multiple of \<open>sc\<close> just
  below \<open>x\<close> and the one just above; a candidate is good when it rounds to \<open>x\<close>, and
  of two good ones the closer to \<open>x\<close> is taken, the even one on a tie.
\<close>

definition closer :: "rat \<Rightarrow> rat \<Rightarrow> int \<Rightarrow> int" where
  "closer x sc lo =
     (if x - of_int lo * sc < of_int (lo + 1) * sc - x then lo
      else if of_int (lo + 1) * sc - x < x - of_int lo * sc then lo + 1
      else if even lo then lo else lo + 1)"

definition pickDigits :: "rat \<Rightarrow> rat \<Rightarrow> int \<Rightarrow> bool \<Rightarrow> bool \<Rightarrow> int option" where
  "pickDigits x sc lo okLo okHi =
     (if okLo \<and> okHi then Some (closer x sc lo)
      else if okLo then Some lo
      else if okHi then Some (lo + 1)
      else None)"

definition tryDigits :: "rat \<Rightarrow> rat \<Rightarrow> int \<Rightarrow> int option" where
  "tryDigits x sc lo =
     pickDigits x sc lo (fl (of_int lo * sc) = Fin x) (fl (of_int (lo + 1) * sc) = Fin x)"

definition candidate :: "rat \<Rightarrow> rat \<Rightarrow> int option" where
  "candidate x sc = tryDigits x sc \<lfloor>x / sc\<rfloor>"

text \<open>The search tries 1 digit, then 2, and so on. Seventeen digits always tell a
  double from its neighbours, so the search is given 17 rounds; were they to run out,
  the digits would be cut off there.\<close>

fun shortest :: "nat \<Rightarrow> rat \<Rightarrow> int \<Rightarrow> nat \<Rightarrow> int \<times> nat" where
  "shortest 0 x n k = (\<lfloor>x / pow10 (n - int k)\<rfloor>, k)"
| "shortest (Suc fuel) x n k =
     (case candidate x (pow10 (n - int k)) of
        Some s \<Rightarrow> (s, k)
      | None \<Rightarrow> shortest fuel x n (Suc k))"

definition exponentText :: "int \<Rightarrow> string" where
  "exponentText e = (if e < 0 then ''-'' else ''+'') @ decDigits (nat \<bar>e\<bar>)"

text \<open>The digits \<open>ds\<close> with the decimal point after the \<open>n\<close>-th of them: plain up
  to 21 integer digits, \<^verbatim>\<open>0.000ddd\<close> down to six zeros after the point, with an
  exponent otherwise.\<close>

definition layout :: "string \<Rightarrow> int \<Rightarrow> string" where
  "layout ds n =
     (if int (length ds) \<le> n \<and> n \<le> 21
        then ds @ replicate (nat (n - int (length ds))) CHR ''0''
      else if 0 < n \<and> n \<le> 21 then take (nat n) ds @ ''.'' @ drop (nat n) ds
      else if - 6 < n \<and> n \<le> 0 then ''0.'' @ replicate (nat (- n)) CHR ''0'' @ ds
      else if length ds = 1 then ds @ ''e'' @ exponentText (n - 1)
      else take 1 ds @ ''.'' @ drop 1 ds @ ''e'' @ exponentText (n - 1))"

definition stripZeros :: "string \<Rightarrow> string" where
  "stripZeros ds = rev (dropWhile (\<lambda>c. c = CHR ''0'') (rev ds))"

text \<open>The digits found may be a power of ten one digit longer than asked for (the
  candidate above rounded up); the point moves accordingly and the zeros go.\<close>

definition layoutDigits :: "int \<Rightarrow> string \<Rightarrow> nat \<Rightarrow> string" where
  "layoutDigits n0 ds0 k = layout (stripZeros ds0) (n0 + int (length ds0) - int k)"

fun layoutFound :: "int \<Rightarrow> int \<times> nat \<Rightarrow> string" where
  "layoutFound n0 (s, k) = layoutDigits n0 (decDigits (nat s)) k"

definition positiveToString :: "rat \<Rightarrow> string" where
  "positiveToString x = layoutFound (decimalPoint x) (shortest 17 x (decimalPoint x) 1)"

text \<open>\<^verbatim>\<open>x.toString()\<close>, in base 10.\<close>

fun numberToString :: "number \<Rightarrow> string" where
  "numberToString NaN = ''NaN''"
| "numberToString PInf = ''Infinity''"
| "numberToString NInf = ''-Infinity''"
| "numberToString (Fin r) =
     (if r = 0 then ''0''
      else if r < 0 then ''-'' @ positiveToString (- r)
      else positiveToString r)"

text \<open>The digits of a natural number in base 16, lower case, no leading zero.\<close>

fun hexDigits :: "nat \<Rightarrow> string" where
  "hexDigits n =
     (if n < 16 then [''0123456789abcdef'' ! n]
      else hexDigits (n div 16) @ [''0123456789abcdef'' ! (n mod 16)])"

declare hexDigits.simps [simp del]

text \<open>
  \<^verbatim>\<open>x.toString(16)\<close>. For a radix other than 10 ECMAScript leaves the digits to the
  implementation, and engines differ on what they write for a digit they hold only in
  part: some write the exact digits of the double, some fill with zeros. They agree
  on an integer whose digits are all held whole, and that one is written exactly: an
  integer below \<open>2 ^ 53\<close>, or a larger double that is a multiple of the power of 16
  covering its last place (a double of \<open>b\<close> bits holds the top 53, so the last
  \<open>b - 53\<close> bits, hence \<open>(b - 53 + 3) div 4\<close> hexadecimal digits, must be zeros). For
  the other finite numbers (fractions among them) the text is what the engine at hand
  gives, the parameter \<open>E\<close>.
\<close>

type_synonym engine = "rat \<Rightarrow> string"

definition wholeDigits :: "nat \<Rightarrow> bool" where
  "wholeDigits a = (a mod 16 ^ ((bitLength a - 53 + 3) div 4) = 0)"

fun toString16 :: "engine \<Rightarrow> number \<Rightarrow> string" where
  "toString16 E NaN = ''NaN''"
| "toString16 E PInf = ''Infinity''"
| "toString16 E NInf = ''-Infinity''"
| "toString16 E (Fin r) =
     (if of_int \<lfloor>r\<rfloor> = r \<and> wholeDigits (nat \<lfloor>\<bar>r\<bar>\<rfloor>)
      then (if r < 0 then ''-'' else []) @ hexDigits (nat \<lfloor>\<bar>r\<bar>\<rfloor>)
      else E r)"

section \<open>Transactions and the transport\<close>

text \<open>The normalized outcome of a submitted transaction (\<^verbatim>\<open>TransactionResult\<close>
  of docs/API.md).\<close>

datatype tx_status = success | failed

record TransactionResult =
  hash :: string
  blockNumber :: nat
  gasUsed :: string
  status :: tx_status
  timestamp :: nat

text \<open>
  What a call can throw. \<^verbatim>\<open>Error m\<close> is \<^verbatim>\<open>new Error(m)\<close>, built by the toolkit
  itself; \<^verbatim>\<open>ProviderError m\<close> is an error raised inside ethers (by the provider, the
  signer or the wallet) and handed on as it is.
\<close>

datatype js_error = Error string | ProviderError string

fun isProviderError :: "js_error \<Rightarrow> bool" where
  "isProviderError (ProviderError m) = True"
| "isProviderError (Error m) = False"

text \<open>
  \<^verbatim>\<open>sdk.sendTransaction(to, value, data)\<close>. The integrator calls it on its SDK, the
  tests call it, but \<^verbatim>\<open>BaseSDK.ts\<close> does not define it: it is a parameter of the
  model, a function from the request to a rejection or a transaction result.
\<close>

type_synonym transport = "string \<Rightarrow> string \<Rightarrow> string \<Rightarrow> js_error + TransactionResult"

text \<open>A request that reached the transport: destination, value, payload.\<close>

datatype net_call = SendTransaction string string string

text \<open>The outcome of an operation, with the requests it made, oldest first.\<close>

type_synonym 'a traced = "(js_error + 'a) \<times> net_call list"

section \<open>DeFiIntegrator\<close>

record SwapParams =
  tokenIn :: string
  tokenOut :: string
  amountIn :: string
  amountOutMinimum :: string
  sqrtPriceLimitX96 :: "string option"
  recipient :: string
  deadline :: number

text \<open>\<^verbatim>\<open>LiquidityParams\<close>. The record's fields carry a prefix where
  \<^verbatim>\<open>PoolInfo\<close> or \<^verbatim>\<open>SwapParams\<close> has a field of the same name.\<close>

record LiquidityParams =
  lp_token0 :: string
  lp_token1 :: string
  lp_fee :: number
  tickLower :: number
  tickUpper :: number
  amount0Desired :: string
  amount1Desired :: string
  amount0Min :: string
  amount1Min :: string
  lp_recipient :: string
  lp_deadline :: number

record PoolInfo =
  address :: string
  token0 :: string
  token1 :: string
  fee :: number
  liquidity :: string
  sqrtPriceX96 :: string

text \<open>An Aerodrome route, as \<^verbatim>\<open>getAerodromeRoutes\<close> builds it.\<close>

record Route =
  route_from :: string
  route_to :: string
  stable :: bool
  factory :: string

record DeFiIntegrator =
  sdk :: transport
  uniswapV3Router :: string
  aerodromeRouter :: string
  compoundComet :: string

definition createDeFiIntegrator :: "transport \<Rightarrow> DeFiIntegrator" where
  "createDeFiIntegrator s =
     \<lparr>sdk = s,
      uniswapV3Router = ''0x2626664c2603336E57B271c5C0b26F421741e481'',
      aerodromeRouter = ''0xcF77a3Ba9A5CA399B7c97c74d54e5b1Beb874E43'',
      compoundComet = ''0x9c4ec768c28520B50860ea7a15bd7213a9fF58bf''\<rparr>"

text \<open>
  \<^verbatim>\<open>getPoolInfo\<close>. The address is made from \<^verbatim>\<open>Math.random().toString(16)\<close>;
  that text is the parameter \<open>rnd\<close>.
\<close>

definition getPoolInfo :: "string \<Rightarrow> string \<Rightarrow> string \<Rightarrow> number \<Rightarrow> PoolInfo" where
  "getPoolInfo rnd t0 t1 f =
     \<lparr>address = ''0x'' @ take 40 (drop 2 rnd),
      token0 = t0,
      token1 = t1,
      fee = f,
      liquidity = ''1000000000000000000'',
      sqrtPriceX96 = ''79228162514264337593543950336''\<rparr>"

subsection \<open>Encoders\<close>

text \<open>Each encoder is written as in the source; \<open>E\<close> is the engine on which the
  code runs, consulted by \<^verbatim>\<open>toString(16)\<close> only.\<close>

definition encodeSwapData :: "engine \<Rightarrow> SwapParams \<Rightarrow> string" where
  "encodeSwapData E params =
     ''0x414bf389'' @
     padStart 64 CHR ''0'' (drop 2 (tokenIn params)) @
     padStart 64 CHR ''0'' (drop 2 (tokenOut params)) @
     padStart 64 CHR ''0'' (toString16 E (parseInt (amountIn params)))"

definition encodeAerodromeSwap ::
  "engine \<Rightarrow> string \<Rightarrow> string \<Rightarrow> Route list \<Rightarrow> string \<Rightarrow> number \<Rightarrow> string" where
  "encodeAerodromeSwap E amountIn' amountOutMin routes to dl =
     ''0x38ed1739'' @
     padStart 64 CHR ''0'' (toString16 E (parseInt amountIn')) @
     padStart 64 CHR ''0'' (toString16 E (parseInt amountOutMin))"

definition encodeLiquidityData :: "engine \<Rightarrow> LiquidityParams \<Rightarrow> string" where
  "encodeLiquidityData E params =
     ''0x219f5d17'' @
     padStart 64 CHR ''0'' (drop 2 (lp_token0 params)) @
     padStart 64 CHR ''0'' (drop 2 (lp_token1 params)) @
     padStart 64 CHR ''0'' (toString16 E (lp_fee params))"

definition encodeRemoveLiquidityData ::
  "engine \<Rightarrow> number \<Rightarrow> string \<Rightarrow> string \<Rightarrow> string \<Rightarrow> number \<Rightarrow> string" where
  "encodeRemoveLiquidityData E tokenId liq a0Min a1Min dl =
     ''0x0c49ccbe'' @
     padStart 64 CHR ''0'' (toString16 E tokenId) @
     padStart 64 CHR ''0'' (toString16 E (parseInt liq))"

definition encodeSupplyData :: "engine \<Rightarrow> string \<Rightarrow> string \<Rightarrow> string" where
  "encodeSupplyData E asset amount =
     ''0xa0712d68'' @
     padStart 64 CHR ''0'' (drop 2 asset) @
     padStart 64 CHR ''0'' (toString16 E (parseInt amount))"

definition encodeBorrowData :: "engine \<Rightarrow> string \<Rightarrow> string \<Rightarrow> string" where
  "encodeBorrowData E asset amount =
     ''0xc5ebeaec'' @
     padStart 64 CHR ''0'' (drop 2 asset) @
     padStart 64 CHR ''0'' (toString16 E (parseInt amount))"

definition encodeStakeData :: "engine \<Rightarrow> string \<Rightarrow> string \<Rightarrow> string" where
  "encodeStakeData E pool amount =
     ''0xa694fc3a'' @ padStart 64 CHR ''0'' (toString16 E (parseInt amount))"

definition encodeClaimData :: "string" where
  "encodeClaimData = ''0x3d18b912''"

subsection \<open>Operations\<close>

text \<open>
  The tail every operation shares:
  \<^verbatim>\<open>const result = await this.sdk.sendTransaction(to, '0', data); return result.hash;\<close>
  There is no \<^verbatim>\<open>try\<close> around the call: a rejection of the transport is the
  rejection of the operation.
\<close>

definition sendAndReturnHash :: "transport \<Rightarrow> string \<Rightarrow> string \<Rightarrow> string traced" where
  "sendAndReturnHash s to payload =
     ((case s to ''0'' payload of
         Inl e \<Rightarrow> Inl e
       | Inr result \<Rightarrow> Inr (hash result)),
      [SendTransaction to ''0'' payload])"

definition swapExactInputSingle ::
  "engine \<Rightarrow> DeFiIntegrator \<Rightarrow> SwapParams \<Rightarrow> string traced" where
  "swapExactInputSingle E this params =
     (let swapData = encodeSwapData E params
      in sendAndReturnHash (sdk this) (uniswapV3Router this) swapData)"

definition swapOnAerodrome ::
  "engine \<Rightarrow> DeFiIntegrator \<Rightarrow> string \<Rightarrow> string \<Rightarrow> Route list \<Rightarrow> string \<Rightarrow> number
     \<Rightarrow> string traced" where
  "swapOnAerodrome E this amountIn' amountOutMin routes to dl =
     (let swapData = encodeAerodromeSwap E amountIn' amountOutMin routes to dl
      in sendAndReturnHash (sdk this) (aerodromeRouter this) swapData)"

definition addLiquidity ::
  "engine \<Rightarrow> DeFiIntegrator \<Rightarrow> LiquidityParams \<Rightarrow> string traced" where
  "addLiquidity E this params =
     (let liquidityData = encodeLiquidityData E params
      in sendAndReturnHash (sdk this) (uniswapV3Router this) liquidityData)"

definition removeLiquidity ::
  "engine \<Rightarrow> DeFiIntegrator \<Rightarrow> number \<Rightarrow> string \<Rightarrow> string \<Rightarrow> string \<Rightarrow> number
     \<Rightarrow> string traced" where
  "removeLiquidity E this tokenId liq a0Min a1Min dl =
     (let removeData = encodeRemoveLiquidityData E tokenId liq a0Min a1Min dl
      in sendAndReturnHash (sdk this) (uniswapV3Router this) removeData)"

definition supplyToCompound ::
  "engine \<Rightarrow> DeFiIntegrator \<Rightarrow> string \<Rightarrow> string \<Rightarrow> string traced" where
  "supplyToCompound E this asset amount =
     (let supplyData = encodeSupplyData E asset amount
      in sendAndReturnHash (sdk this) (compoundComet this) supplyData)"

definition borrowFromCompound ::
  "engine \<Rightarrow> DeFiIntegrator \<Rightarrow> string \<Rightarrow> string \<Rightarrow> string traced" where
  "borrowFromCompound E this asset amount =
     (let borrowData = encodeBorrowData E asset amount
      in sendAndReturnHash (sdk this) (compoundComet this) borrowData)"

definition stakeLPTokens ::
  "engine \<Rightarrow> DeFiIntegrator \<Rightarrow> string \<Rightarrow> string \<Rightarrow> string traced" where
  "stakeLPTokens E this pool amount =
     (let stakeData = encodeStakeData E pool amount
      in sendAndReturnHash (sdk this) pool stakeData)"

definition claimRewards :: "engine \<Rightarrow> DeFiIntegrator \<Rightarrow> string \<Rightarrow> string traced" where
  "claimRewards E this pool =
     (let claimData = encodeClaimData
      in sendAndReturnHash (sdk this) pool claimData)"


section \<open>BaseSDK\<close>

record BaseConfig =
  rpcUrl :: string
  chainId :: nat
  explorerUrl :: string
  multicallAddress :: string

text \<open>The two ethers objects the SDK holds: a provider for an endpoint, and a wallet
  made from a private key and a provider.\<close>

datatype JsonRpcProvider = JsonRpcProvider string

datatype Wallet = Wallet string JsonRpcProvider

text \<open>\<^verbatim>\<open>new ethers.Wallet(key, provider)\<close> is code of ethers: it throws on a key it
  does not accept. It is a parameter of the constructor below.\<close>

type_synonym wallet_constructor = "string \<Rightarrow> JsonRpcProvider \<Rightarrow> js_error + Wallet"

record BaseSDK =
  provider :: JsonRpcProvider
  config :: BaseConfig
  signer :: "Wallet option"

text \<open>
  The constructor. The private key is optional, and \<^verbatim>\<open>if (privateKey)\<close> is false
  for a missing key and for the empty string: the signer is then left undefined and no
  wallet is made. With a key, what the wallet constructor throws comes out of the
  constructor.
\<close>

definition newBaseSDK ::
  "wallet_constructor \<Rightarrow> BaseConfig \<Rightarrow> string option \<Rightarrow> js_error + BaseSDK" where
  "newBaseSDK newWallet cfg privateKey =
     (case privateKey of
        None \<Rightarrow>
          Inr \<lparr>provider = JsonRpcProvider (rpcUrl cfg), config = cfg, signer = None\<rparr>
      | Some k \<Rightarrow>
          if k \<noteq> [] then
            (case newWallet k (JsonRpcProvider (rpcUrl cfg)) of
               Inl e \<Rightarrow> Inl e
             | Inr w \<Rightarrow>
                 Inr \<lparr>provider = JsonRpcProvider (rpcUrl cfg), config = cfg,
                      signer = Some w\<rparr>)
          else Inr \<lparr>provider = JsonRpcProvider (rpcUrl cfg), config = cfg, signer = None\<rparr>)"

definition createBaseSDK :: "wallet_constructor \<Rightarrow> string option \<Rightarrow> js_error + BaseSDK" where
  "createBaseSDK newWallet privateKey =
     newBaseSDK newWallet
       \<lparr>rpcUrl = ''https://mainnet.base.org'',
        chainId = 8453,
        explorerUrl = ''https://basescan.org'',
        multicallAddress = ''0xcA11bde05977b3631167028862bE2a173976CA11''\<rparr>
       privateKey"

text \<open>The parameter and result objects of the three transaction methods. Their
  fields carry a prefix where another record has a field of the same name.\<close>

record SwapTokensParams =
  st_tokenIn :: string
  st_tokenOut :: string
  st_amountIn :: string
  slippage :: number
  st_deadline :: "number option"

record SwapTokensResult =
  st_txHash :: string
  amountOut :: string
  st_gasUsed :: nat

record AddLiquidityParams =
  al_token0 :: string
  al_token1 :: string
  amount0 :: string
  amount1 :: string
  al_fee :: number

record AddLiquidityResult =
  al_txHash :: string
  lpTokens :: string
  al_gasUsed :: nat

record BridgeParams =
  br_amount :: string
  br_token :: string
  fromChain :: number

record BridgeResult =
  br_txHash :: string
  bridgeId :: string
  estimatedTime :: nat

text \<open>
  Each method throws when there is no signer and otherwise returns a fixed object;
  \<^verbatim>\<open>swapTokens\<close> also builds a contract object for the router, which sends
  nothing. None of them calls the provider.
\<close>

definition swapTokens :: "BaseSDK \<Rightarrow> SwapTokensParams \<Rightarrow> SwapTokensResult traced" where
  "swapTokens this params =
     (if signer this = None then Inl (Error ''Signer required for transactions'')
      else Inr \<lparr>st_txHash = ''0x...'', amountOut = ''0'', st_gasUsed = 150000\<rparr>,
      [])"

definition sdk_addLiquidity :: "BaseSDK \<Rightarrow> AddLiquidityParams \<Rightarrow> AddLiquidityResult traced" where
  "sdk_addLiquidity this params =
     (if signer this = None then Inl (Error ''Signer required for transactions'')
      else Inr \<lparr>al_txHash = ''0x...'', lpTokens = ''0'', al_gasUsed = 200000\<rparr>,
      [])"

definition bridgeToBase :: "BaseSDK \<Rightarrow> BridgeParams \<Rightarrow> BridgeResult traced" where
  "bridgeToBase this params =
     (if signer this = None then Inl (Error ''Signer required for transactions'')
      else Inr \<lparr>br_txHash = ''0x...'', bridgeId = ''0x...'', estimatedTime = 600\<rparr>,
      [])"

section \<open>Portfolio analytics\<close>

text \<open>
  The objects of the analytics functions: anything with a \<^verbatim>\<open>protocol\<close>, a balance
  entry adds a \<^verbatim>\<open>value\<close>, a breakdown entry of \<^verbatim>\<open>getPortfolioBalance\<close> adds a
  \<^verbatim>\<open>percentage\<close>, and a position of \<^verbatim>\<open>calculateRiskScore\<close> has an \<^verbatim>\<open>apr\<close>.
\<close>

record Named =
  protocol :: string

record BalanceEntry = Named +
  "value" :: string

record BreakdownEntry = BalanceEntry +
  percentage :: number

record Position = Named +
  apr :: number

text \<open>A portfolio: the total, as text, and a breakdown.\<close>

record 'e Portfolio =
  totalValue :: string
  breakdown :: "'e list"

definition getPortfolioValue :: "string \<Rightarrow> BalanceEntry Portfolio" where
  "getPortfolioValue user =
     \<lparr>totalValue = ''10000000000000000000'',
      breakdown =
        [\<lparr>protocol = ''Uniswap V3'', value = ''5000000000000000000''\<rparr>,
         \<lparr>protocol = ''Aerodrome'', value = ''3000000000000000000''\<rparr>,
         \<lparr>protocol = ''Compound V3'', value = ''2000000000000000000''\<rparr>]\<rparr>"

text \<open>\<^verbatim>\<open>Promise.all\<close>: every result in order, or a rejection (\<open>None\<close>) when one of
  the promises rejects.\<close>

fun Promise_all :: "'a option list \<Rightarrow> 'a list option" where
  "Promise_all [] = Some []"
| "Promise_all (None # ps) = None"
| "Promise_all (Some x # ps) = map_option ((#) x) (Promise_all ps)"

text \<open>
  \<^verbatim>\<open>getPortfolioBalance\<close>. It reads each balance with \<^verbatim>\<open>getProtocolBalance\<close>,
  which no file of the repository defines: it is the parameter \<open>read\<close>, giving the
  balance text or \<open>None\<close> when the read rejects. The function is written as its three
  steps: the balances, then the total
  \<^verbatim>\<open>balances.reduce((sum, {value}) => sum + parseFloat(value), 0).toString()\<close>, then
  the breakdown, whose shares read the total back with \<^verbatim>\<open>parseFloat(totalValue)\<close>.
\<close>

definition sumBalances :: "BalanceEntry list \<Rightarrow> number" where
  "sumBalances balances = foldl (\<lambda>sum b. js_add sum (parseFloat (value b))) (Fin 0) balances"

definition withBreakdown :: "BalanceEntry list \<Rightarrow> string \<Rightarrow> BreakdownEntry Portfolio" where
  "withBreakdown balances totalText =
     \<lparr>totalValue = totalText,
      breakdown =
        map (\<lambda>b. \<lparr>protocol = protocol b,
                  value = value b,
                  percentage =
                    js_mul (js_div (parseFloat (value b)) (parseFloat totalText)) (Fin 100)\<rparr>)
          balances\<rparr>"

definition withTotal :: "BalanceEntry list \<Rightarrow> BreakdownEntry Portfolio" where
  "withTotal balances = withBreakdown balances (numberToString (sumBalances balances))"

definition getPortfolioBalance ::
  "(string \<Rightarrow> string \<Rightarrow> string option) \<Rightarrow> string \<Rightarrow> string list
     \<Rightarrow> BreakdownEntry Portfolio option" where
  "getPortfolioBalance read user protocols =
     map_option withTotal
       (Promise_all
          (map (\<lambda>p. map_option (\<lambda>balance. \<lparr>protocol = p, value = balance\<rparr>) (read user p))
             protocols))"

text \<open>
  \<^verbatim>\<open>calculateRiskScore\<close>: the body of the \<^verbatim>\<open>forEach\<close> adds to \<^verbatim>\<open>riskScore\<close>
  for one position; the sum is then divided by \<^verbatim>\<open>positions.length\<close>.
\<close>

definition riskStep :: "nat \<Rightarrow> Position \<Rightarrow> nat" where
  "riskStep riskScore position =
     (let r1 = (if js_gt (apr position) (Fin 20) then riskScore + 3
                else if js_gt (apr position) (Fin 10) then riskScore + 2
                else riskScore + 1)
      in if protocol position = ''Compound V3'' then r1 + 1
         else if protocol position = ''Uniswap V3'' then r1 + 2
         else r1 + 3)"

definition calculateRiskScore :: "Position list \<Rightarrow> number" where
  "calculateRiskScore positions =
     Math_min
       (js_div (Fin (of_nat (foldl riskStep 0 positions))) (Fin (of_nat (length positions))))
       (Fin 10)"


section \<open>Configuration registry\<close>

datatype category = dex | lending | yield | bridge | nft

text \<open>\<^verbatim>\<open>ProtocolConfig\<close>; the \<^verbatim>\<open>abi\<close> field, empty in every entry, is left out.\<close>

record ProtocolConfig =
  p_name :: string
  p_address :: string
  p_version :: string
  p_category :: category
  p_tvl :: "string option"
  p_apr :: "number option"

definition PROTOCOLS :: "(string \<times> ProtocolConfig) list" where
  "PROTOCOLS =
     [(''UNISWAP_V3'',
       \<lparr>p_name = ''Uniswap V3'', p_address = ''0x2626664c2603336E57B271c5C0b26F421741e481'',
        p_version = ''3.0.0'', p_category = dex,
        p_tvl = Some ''500000000'', p_apr = Some (Fin (25 / 2))\<rparr>),
      (''COMPOUND_V3'',
       \<lparr>p_name = ''Compound V3'', p_address = ''0x9c4ec768c28520B50860ea7a15bd7213a9fF58bf'',
        p_version = ''3.0.0'', p_category = lending,
        p_tvl = Some ''300000000'', p_apr = Some (Fin (41 / 5))\<rparr>),
      (''AERODROME'',
       \<lparr>p_name = ''Aerodrome'', p_address = ''0x940181a94A37A2A52b90D688a193c1e0c0Ae46A1'',
        p_version = ''1.0.0'', p_category = dex,
        p_tvl = Some ''200000000'', p_apr = Some (Fin (79 / 5))\<rparr>),
      (''MOONWELL'',
       \<lparr>p_name = ''Moonwell'', p_address = ''0x628ff693426583D9a7FB391E54366292F509D457'',
        p_version = ''2.0.0'', p_category = lending,
        p_tvl = Some ''150000000'', p_apr = Some (Fin (19 / 2))\<rparr>)]"

section \<open>The statements of the specification, as definitions\<close>

text \<open>
  The definitions of this section are not code of the repository. Each writes down a
  notion the specification uses, to be compared with the functions above.
\<close>

subsection \<open>Risk score\<close>

text \<open>The specification's tiers: an APR below 10 counts 1 point, an APR from 10 to
  20 counts 2 points, an APR above 20 counts 3 points.\<close>

definition spec_aprPoints :: "number \<Rightarrow> nat" where
  "spec_aprPoints a =
     (if js_gt (Fin 10) a then 1 else if js_gt a (Fin 20) then 3 else 2)"

text \<open>The specification's protocol classes, read in the registry by name: a lending
  protocol counts 1 point, an exchange 2 points, anything else 3 points.\<close>

definition spec_classPoints :: "string \<Rightarrow> nat" where
  "spec_classPoints n =
     (case find (\<lambda>c. p_name c = n) (map snd PROTOCOLS) of
        None \<Rightarrow> 3
      | Some c \<Rightarrow>
          (case p_category c of lending \<Rightarrow> 1 | dex \<Rightarrow> 2 | yield \<Rightarrow> 3 | bridge \<Rightarrow> 3 | nft \<Rightarrow> 3))"

definition spec_riskScore :: "Position list \<Rightarrow> rat" where
  "spec_riskScore ps =
     min (of_nat (sum_list (map (\<lambda>p. spec_aprPoints (apr p) + spec_classPoints (protocol p)) ps))
            / of_nat (length ps))
         10"

text \<open>
  The tiers the code has: an APR of at most 10, or one that is not a number, counts
  1 point; above 10 and at most 20, 2 points; above 20, 3 points. The protocol counts
  by its name: 1 point for \<^verbatim>\<open>Compound V3\<close>, 2 points for \<^verbatim>\<open>Uniswap V3\<close>, 3 points
  for every other name.
\<close>

fun aprTier :: "number \<Rightarrow> nat" where
  "aprTier (Fin r) = (if r \<le> 10 then 1 else if r \<le> 20 then 2 else 3)"
| "aprTier PInf = 3"
| "aprTier NInf = 1"
| "aprTier NaN = 1"

definition protocolPoints :: "string \<Rightarrow> nat" where
  "protocolPoints n =
     (if n = ''Compound V3'' then 1 else if n = ''Uniswap V3'' then 2 else 3)"

definition contribution :: "Position \<Rightarrow> nat" where
  "contribution p = aprTier (apr p) + protocolPoints (protocol p)"

definition meanContribution :: "Position list \<Rightarrow> rat" where
  "meanContribution ps = of_nat (sum_list (map contribution ps)) / of_nat (length ps)"

subsection \<open>Portfolio snapshots\<close>

text \<open>The sum of the value fields of a breakdown as the code computes it: each value
  read by \<^verbatim>\<open>parseFloat\<close>, added in list order from 0, in double arithmetic.\<close>

definition sumOfValues :: "('a BalanceEntry_scheme) list \<Rightarrow> number" where
  "sumOfValues es = foldl js_add (Fin 0) (map (\<lambda>e. parseFloat (value e)) es)"

text \<open>The exact value of a decimal text, without rounding, and the exact sum of the
  value fields of a breakdown (a text that is no decimal counts 0).\<close>

fun exactSigned :: "bool \<times> string \<Rightarrow> rat option" where
  "exactSigned (neg, u) = map_option (\<lambda>v. if neg then - v else v) (readDecimal u)"

definition exactValue :: "string \<Rightarrow> rat option" where
  "exactValue s = exactSigned (splitSign (dropWhile isWhiteSpace s))"

definition spec_exactSum :: "('a BalanceEntry_scheme) list \<Rightarrow> rat" where
  "spec_exactSum es =
     sum_list (map (\<lambda>e. case exactValue (value e) of None \<Rightarrow> 0 | Some v \<Rightarrow> v) es)"

subsection \<open>Results and validation\<close>

text \<open>What an operation returns follows what the transport answered: the same
  rejection, or the hash of the result.\<close>

definition passesThrough :: "js_error + TransactionResult \<Rightarrow> js_error + string \<Rightarrow> bool" where
  "passesThrough answered returned =
     (case answered of
        Inl e \<Rightarrow> returned = Inl e
      | Inr result \<Rightarrow> returned = Inr (hash result))"

text \<open>An operation that checks nothing: it makes exactly the one request with the
  payload, and fails only with the rejection of that request.\<close>

definition submitsUnchecked :: "string traced \<Rightarrow> transport \<Rightarrow> string \<Rightarrow> string \<Rightarrow> bool" where
  "submitsUnchecked out s to payload =
     (snd out = [SendTransaction to ''0'' payload] \<and>
      (case fst out of Inl e \<Rightarrow> s to ''0'' payload = Inl e | Inr h \<Rightarrow> True))"

text \<open>The specification's valid amount: the text of a non-negative integer.\<close>

definition spec_nonNegativeInteger :: "string \<Rightarrow> bool" where
  "spec_nonNegativeInteger s = (s \<noteq> [] \<and> list_all (isDigit 10) s)"

text \<open>A numeric word of a payload when the number is \<^verbatim>\<open>NaN\<close>: the text
  \<^verbatim>\<open>NaN\<close> after 61 zeros.\<close>

definition nanWord :: string where
  "nanWord = replicate 61 CHR ''0'' @ ''NaN''"

text \<open>The payload of a request.\<close>

fun payloadOf :: "net_call \<Rightarrow> string" where
  "payloadOf (SendTransaction to v payload) = payload"

text \<open>An engine that writes every digit of the integer part and nothing after it;
  any engine does where only integers below \<open>2 ^ 53\<close> are rendered.\<close>

definition plainEngine :: engine where
  "plainEngine r = (if r < 0 then ''-'' else []) @ hexDigits (nat \<lfloor>\<bar>r\<bar>\<rfloor>)"

text \<open>A wallet constructor that accepts every key.\<close>

definition anyKeyWallet :: wallet_constructor where
  "anyKeyWallet k p = Inr (Wallet k p)"

text \<open>The transport of the test suite: every request is answered with the same
  receipt.\<close>

definition mockTransport :: transport where
  "mockTransport to v payload =
     Inr \<lparr>hash = ''0x1234567890abcdef'', blockNumber = 12345, gasUsed = ''150000'',
          status = success, timestamp = 0\<rparr>"

text \<open>A transport whose provider cannot be reached.\<close>

definition failingTransport :: transport where
  "failingTransport to v payload = Inl (ProviderError ''Network error'')"


section \<open>Evaluation and helper lemmas\<close>

text \<open>Rules that compute on numerals only, so that the recursive functions unfold on
  concrete arguments and nowhere else.\<close>

lemma floor_rat_numeral_div: "\<lfloor>numeral a / numeral b :: rat\<rfloor> = numeral a div numeral b"
  using floor_divide_of_int_eq [of "numeral a" "numeral b", where ?'a = rat] by simp

lemma ceiling_rat_numeral_div:
  "\<lceil>numeral a / numeral b :: rat\<rceil> = - (- numeral a div numeral b)"
  using ceiling_divide_eq_div [of "numeral a" "numeral b", where ?'a = rat] by simp

lemma floor_rat_one_div: "\<lfloor>1 / numeral b :: rat\<rfloor> = 1 div numeral b"
  using floor_divide_of_int_eq [of 1 "numeral b", where ?'a = rat] by simp

lemma ceiling_rat_one_div: "\<lceil>1 / numeral b :: rat\<rceil> = - (- 1 div numeral b)"
  using ceiling_divide_eq_div [of 1 "numeral b", where ?'a = rat] by simp

lemma bitLength_eval:
  "bitLength 0 = 0" "bitLength (Suc 0) = Suc 0"
  "bitLength (numeral k) = Suc (bitLength (numeral k div 2))"
  by (simp_all add: bitLength.simps [of 0] bitLength.simps [of "Suc 0"]
      bitLength.simps [of "numeral k"])

lemma digits10_eval:
  "digits10 0 = Suc 0" "digits10 (Suc 0) = Suc 0"
  "digits10 (numeral k) =
     (if numeral k < (10::nat) then 1 else Suc (digits10 (numeral k div 10)))"
  by (simp_all add: digits10.simps [of 0] digits10.simps [of "Suc 0"]
      digits10.simps [of "numeral k"])

lemma decDigits_eval:
  "decDigits 0 = ''0''" "decDigits (Suc 0) = ''1''"
  "decDigits (numeral k) =
     (if numeral k < (10::nat) then [''0123456789'' ! numeral k]
      else decDigits (numeral k div 10) @ [''0123456789'' ! (numeral k mod 10)])"
  by (simp_all add: decDigits.simps [of 0] decDigits.simps [of "Suc 0"]
      decDigits.simps [of "numeral k"])

lemma hexDigits_eval:
  "hexDigits 0 = ''0''" "hexDigits (Suc 0) = ''1''"
  "hexDigits (numeral k) =
     (if numeral k < (16::nat) then [''0123456789abcdef'' ! numeral k]
      else hexDigits (numeral k div 16) @ [''0123456789abcdef'' ! (numeral k mod 16)])"
  by (simp_all add: hexDigits.simps [of 0] hexDigits.simps [of "Suc 0"]
      hexDigits.simps [of "numeral k"])

lemma shortest_eval:
  "shortest (numeral f) x n k =
     (case candidate x (pow10 (n - int k)) of
        Some s \<Rightarrow> (s, k)
      | None \<Rightarrow> shortest (pred_numeral f) x n (Suc k))"
  by (simp add: numeral_eq_Suc)

lemma padding_unfold: "replicate (numeral k) c = c # replicate (pred_numeral k) c"
  unfolding numeral_eq_Suc by simp

lemmas js_eval =
  floor_rat_numeral_div ceiling_rat_numeral_div floor_rat_one_div ceiling_rat_one_div
  bitLength_eval digits10_eval decDigits_eval hexDigits_eval shortest_eval padding_unfold
  fl_def overflow_def quantize_def floorLog2_def pow2_def roundHalfEven_def tieToEven_def
  pow10_def decimalPoint_def closer_def pickDigits_def tryDigits_def candidate_def
  exponentText_def layout_def stripZeros_def layoutDigits_def positiveToString_def
  parseInt_def intValue_def parseFloat_def readDecimal_def afterInteger_def
  afterFraction_def scale10_def exponentValue_def isWhiteSpace_def isWhiteSpaceCode_def
  digitValue_def digitOfCode_def isDigit_def digitsValue_def padStart_def wholeDigits_def

lemmas operation_defs = swapExactInputSingle_def swapOnAerodrome_def addLiquidity_def
  removeLiquidity_def supplyToCompound_def borrowFromCompound_def stakeLPTokens_def
  claimRewards_def

lemmas encoder_defs = encodeSwapData_def encodeAerodromeSwap_def encodeLiquidityData_def
  encodeRemoveLiquidityData_def encodeSupplyData_def encodeBorrowData_def
  encodeStakeData_def encodeClaimData_def

text \<open>Rounding, reading and writing numbers, on examples.\<close>

lemma fl_examples:
  "fl 1234567890123456789 = Fin 1234567890123456768"
  "fl 9007199254740993 = Fin 9007199254740992"
  "fl 9007199254740995 = Fin 9007199254740996"
  "fl (1 / 10) = Fin (3602879701896397 / 36028797018963968)"
  "fl (- 5) = Fin (- 5)"
  by (simp_all add: js_eval)

lemma parseInt_examples:
  "parseInt ''  -0x1F zz'' = Fin (- 31)" "parseInt ''12.5'' = Fin 12" "parseInt ''0x'' = NaN"
  "parseInt ''1234567890123456789'' = Fin 1234567890123456768"
  by (simp_all add: js_eval)

lemma parseFloat_examples:
  "parseFloat ''-12.50e-1x'' = Fin (- 5 / 4)" "parseFloat ''5.e3'' = Fin 5000"
  "parseFloat ''.'' = NaN" "parseFloat ''-Infinity'' = NInf"
  "parseFloat ''0.1'' = Fin (3602879701896397 / 36028797018963968)"
  by (simp_all add: js_eval)

lemma numberToString_examples:
  "numberToString (Fin 1234567890123456768) = ''1234567890123456800''"
  "numberToString (Fin (1351079888211149 / 4503599627370496)) = ''0.30000000000000004''"
  "numberToString (Fin 1000000000000000000000) = ''1e+21''"
  "numberToString (Fin (- 25 / 2)) = ''-12.5''"
  by (simp_all add: js_eval)

lemma toString16_examples:
  "toString16 E (parseInt ''1000000000000000000'') = ''de0b6b3a7640000''"
  "toString16 E (parseInt ''-5'') = ''-5''"
  "toString16 E (parseInt ''abc'') = ''NaN''"
  "toString16 E (parseInt ''1234567890123456789'') = ''112210f47de98100''"
  "toString16 E (parseInt ''9007199254740994'') = E 9007199254740994"
  by (simp_all add: js_eval)

lemma sendAndReturnHash_passes:
  "passesThrough (s to ''0'' payload) (fst (sendAndReturnHash s to payload))"
  by (simp add: passesThrough_def sendAndReturnHash_def split: sum.splits)

lemma sendAndReturnHash_unchecked:
  "submitsUnchecked (sendAndReturnHash s to payload) s to payload"
  by (simp add: submitsUnchecked_def sendAndReturnHash_def split: sum.splits)

lemma sendAndReturnHash_payload:
  "map payloadOf (snd (sendAndReturnHash s to payload)) = [payload]"
  by (simp add: sendAndReturnHash_def)

text \<open>The payload an operation sends is the one of its encoder, whatever the
  integrator: its transport and its addresses do not enter the payload.\<close>

lemma operation_payloads:
  "map payloadOf (snd (swapExactInputSingle E this sp)) = [encodeSwapData E sp]"
  "map payloadOf (snd (swapOnAerodrome E this ai ao routes to dl))
     = [encodeAerodromeSwap E ai ao routes to dl]"
  "map payloadOf (snd (addLiquidity E this lp)) = [encodeLiquidityData E lp]"
  "map payloadOf (snd (removeLiquidity E this tokenId liq a0 a1 dl))
     = [encodeRemoveLiquidityData E tokenId liq a0 a1 dl]"
  "map payloadOf (snd (supplyToCompound E this asset amount)) = [encodeSupplyData E asset amount]"
  "map payloadOf (snd (borrowFromCompound E this asset amount))
     = [encodeBorrowData E asset amount]"
  "map payloadOf (snd (stakeLPTokens E this pool amount)) = [encodeStakeData E pool amount]"
  "map payloadOf (snd (claimRewards E this pool)) = [encodeClaimData]"
  by (simp_all add: operation_defs sendAndReturnHash_payload)

lemma nan_word: "padStart 64 CHR ''0'' ''NaN'' = nanWord"
  by (simp add: padStart_def nanWord_def)

lemma riskStep_contribution: "riskStep r p = r + contribution p"
  by (cases "apr p") (auto simp: riskStep_def contribution_def protocolPoints_def)

lemma foldl_riskStep: "foldl riskStep r ps = r + sum_list (map contribution ps)"
  by (induction ps arbitrary: r) (simp_all add: riskStep_contribution)

lemma contribution_le_6: "contribution p \<le> 6"
  by (cases "apr p") (simp_all add: contribution_def protocolPoints_def)

lemma Promise_all_Some_iff: "Promise_all rs = Some xs \<longleftrightarrow> rs = map Some xs"
proof (induction rs arbitrary: xs)
  case Nil
  then show ?case by auto
next
  case (Cons r rs)
  then show ?case by (cases r; cases xs) auto
qed

lemma sumOfValues_withBreakdown:
  "sumOfValues (breakdown (withBreakdown balances t)) = sumBalances balances"
  by (simp add: sumOfValues_def withBreakdown_def sumBalances_def foldl_map o_def)

lemma getPortfolioBalance_empty:
  "getPortfolioBalance read user [] = Some \<lparr>totalValue = ''0'', breakdown = []\<rparr>"
  by (simp add: getPortfolioBalance_def withTotal_def withBreakdown_def sumBalances_def)

lemma getPortfolioBalance_total:
  assumes "getPortfolioBalance read user protocols = Some s"
  shows "totalValue s = numberToString (sumOfValues (breakdown s))"
proof -
  from assms obtain balances where "s = withTotal balances"
    by (auto simp: getPortfolioBalance_def)
  then show ?thesis
    by (simp add: withTotal_def sumOfValues_withBreakdown) (simp add: withBreakdown_def)
qed

text \<open>What \<^verbatim>\<open>getPortfolioBalance\<close> returns when every read succeeds: one entry for
  each protocol asked for, in order, with the balance read and the share
  \<^verbatim>\<open>value / total * 100\<close>, whatever the total.\<close>

lemma getPortfolioBalance_shares:
  assumes "getPortfolioBalance read user protocols = Some s"
  shows "list_all
           (\<lambda>e. percentage e
                  = js_mul (js_div (parseFloat (value e)) (parseFloat (totalValue s))) (Fin 100))
           (breakdown s)"
    and "map protocol (breakdown s) = protocols"
    and "map (\<lambda>e. Some (value e)) (breakdown s) = map (read user) protocols"
proof -
  from assms obtain balances where
    b: "map (\<lambda>p. map_option (\<lambda>balance. \<lparr>protocol = p, value = balance\<rparr>) (read user p)) protocols
          = map Some balances"
    and s: "s = withTotal balances"
    by (auto simp: getPortfolioBalance_def Promise_all_Some_iff)
  show "list_all
           (\<lambda>e. percentage e
                  = js_mul (js_div (parseFloat (value e)) (parseFloat (totalValue s))) (Fin 100))
           (breakdown s)"
    unfolding s withTotal_def withBreakdown_def by (simp add: list_all_iff)
  from b show "map protocol (breakdown s) = protocols"
    unfolding s withTotal_def withBreakdown_def
  proof (induction protocols arbitrary: balances)
    case Nil
    then show ?case by simp
  next
    case (Cons p ps)
    then show ?case by (cases balances) (auto simp: o_def)
  qed
  from b show "map (\<lambda>e. Some (value e)) (breakdown s) = map (read user) protocols"
    unfolding s withTotal_def withBreakdown_def
  proof (induction protocols arbitrary: balances)
    case Nil
    then show ?case by simp
  next
    case (Cons p ps)
    then show ?case by (cases balances) (auto simp: o_def)
  qed
qed

section \<open>The claims\<close>

text \<open>
  C1. The claim: each of the eight operations of the integrator returns a value
  derived from a normalized transaction result or a typed error, and no raw exception
  of the provider reaches the caller.

  No operation catches anything and nothing in the repository wraps an error. What
  holds: for every transport and every input, the operation answers what the transport
  answered to its one request, the hash of the result when there is a result and the
  very same rejection when there is one. The request goes to the Uniswap V3 router for
  swaps and liquidity, to the Aerodrome router, to the Compound market, or to the pool
  given by the caller.
\<close>

theorem operations_pass_transport_outcome:
  "passesThrough (s ''0x2626664c2603336E57B271c5C0b26F421741e481'' ''0'' (encodeSwapData E sp))
     (fst (swapExactInputSingle E (createDeFiIntegrator s) sp)) \<and>
   passesThrough (s ''0xcF77a3Ba9A5CA399B7c97c74d54e5b1Beb874E43'' ''0''
                    (encodeAerodromeSwap E ai ao routes to dl))
     (fst (swapOnAerodrome E (createDeFiIntegrator s) ai ao routes to dl)) \<and>
   passesThrough (s ''0x2626664c2603336E57B271c5C0b26F421741e481'' ''0''
                    (encodeLiquidityData E lp))
     (fst (addLiquidity E (createDeFiIntegrator s) lp)) \<and>
   passesThrough (s ''0x2626664c2603336E57B271c5C0b26F421741e481'' ''0''
                    (encodeRemoveLiquidityData E tokenId liq a0 a1 dl'))
     (fst (removeLiquidity E (createDeFiIntegrator s) tokenId liq a0 a1 dl')) \<and>
   passesThrough (s ''0x9c4ec768c28520B50860ea7a15bd7213a9fF58bf'' ''0''
                    (encodeSupplyData E asset amount))
     (fst (supplyToCompound E (createDeFiIntegrator s) asset amount)) \<and>
   passesThrough (s ''0x9c4ec768c28520B50860ea7a15bd7213a9fF58bf'' ''0''
                    (encodeBorrowData E asset' amount'))
     (fst (borrowFromCompound E (createDeFiIntegrator s) asset' amount')) \<and>
   passesThrough (s pool ''0'' (encodeStakeData E pool staked))
     (fst (stakeLPTokens E (createDeFiIntegrator s) pool staked)) \<and>
   passesThrough (s pool' ''0'' encodeClaimData)
     (fst (claimRewards E (createDeFiIntegrator s) pool'))"
  unfolding operation_defs Let_def createDeFiIntegrator_def
  by (simp add: sendAndReturnHash_passes)

text \<open>Witness: on the transport of the test suite a supply returns the receipt's
  hash, and on a transport that cannot reach its provider it returns that rejection.\<close>

theorem operations_pass_transport_outcome_witness:
  "fst (supplyToCompound plainEngine (createDeFiIntegrator mockTransport)
          ''0x833589fCD6eDb6E08f4c7C32D4f71b54bdA02913'' ''1000000000'')
     = Inr ''0x1234567890abcdef'' \<and>
   fst (claimRewards plainEngine (createDeFiIntegrator failingTransport)
          ''0x1234567890123456789012345678901234567890'')
     = Inl (ProviderError ''Network error'')"
  using operations_pass_transport_outcome
          [where s = mockTransport and E = plainEngine
             and asset = "''0x833589fCD6eDb6E08f4c7C32D4f71b54bdA02913''"
             and amount = "''1000000000''"]
        operations_pass_transport_outcome
          [where s = failingTransport and E = plainEngine
             and pool' = "''0x1234567890123456789012345678901234567890''"]
  by (simp add: passesThrough_def mockTransport_def failingTransport_def)

text \<open>Counterexample to C1 as stated: the provider's own rejection comes out of
  \<^verbatim>\<open>swapExactInputSingle\<close> unchanged.\<close>

theorem provider_error_escapes_counterexample:
  "fst (swapExactInputSingle plainEngine (createDeFiIntegrator failingTransport)
          \<lparr>tokenIn = ''0xA0b86a33E6417c8f2c8B758B2d7D2E4C2F2e2e2e'',
           tokenOut = ''0x833589fCD6eDb6E08f4c7C32D4f71b54bdA02913'',
           amountIn = ''1000000000000000000'', amountOutMinimum = ''990000000'',
           sqrtPriceLimitX96 = None,
           recipient = ''0x1234567890123456789012345678901234567890'',
           deadline = Fin 1900000000\<rparr>)
     = Inl (ProviderError ''Network error'') \<and>
   isProviderError (ProviderError ''Network error'')"
  by (simp add: operation_defs Let_def createDeFiIntegrator_def sendAndReturnHash_def
      failingTransport_def)

text \<open>
  C2. The claim: a numeric field that is not the text of a non-negative integer, or
  a deadline that is not in the future, makes the operation fail with an
  invalid-parameter error before any request is made.

  The repository validates nothing. What holds, in three parts. For every input, each
  operation builds its payload and makes exactly one request with it, and it fails
  only with the rejection of that request. The deadline given to
  \<^verbatim>\<open>swapExactInputSingle\<close>, \<^verbatim>\<open>swapOnAerodrome\<close>, \<^verbatim>\<open>addLiquidity\<close> and
  \<^verbatim>\<open>removeLiquidity\<close> is never read: another deadline gives the same outcome and
  the same request. And each amount an encoder writes (the amount of a swap, both
  amounts of an Aerodrome swap, the liquidity removed, the amount supplied, borrowed
  or staked), when \<^verbatim>\<open>parseInt\<close> cannot read it, is written as the text \<^verbatim>\<open>NaN\<close>
  after 61 zeros.
\<close>

theorem operations_submit_unchecked:
  "submitsUnchecked (swapExactInputSingle E (createDeFiIntegrator s) sp) s
     ''0x2626664c2603336E57B271c5C0b26F421741e481'' (encodeSwapData E sp) \<and>
   submitsUnchecked (swapOnAerodrome E (createDeFiIntegrator s) ai ao routes to dl) s
     ''0xcF77a3Ba9A5CA399B7c97c74d54e5b1Beb874E43''
     (encodeAerodromeSwap E ai ao routes to dl) \<and>
   submitsUnchecked (addLiquidity E (createDeFiIntegrator s) lp) s
     ''0x2626664c2603336E57B271c5C0b26F421741e481'' (encodeLiquidityData E lp) \<and>
   submitsUnchecked (removeLiquidity E (createDeFiIntegrator s) tokenId liq a0 a1 dl) s
     ''0x2626664c2603336E57B271c5C0b26F421741e481''
     (encodeRemoveLiquidityData E tokenId liq a0 a1 dl) \<and>
   submitsUnchecked (supplyToCompound E (createDeFiIntegrator s) asset amount) s
     ''0x9c4ec768c28520B50860ea7a15bd7213a9fF58bf'' (encodeSupplyData E asset amount) \<and>
   submitsUnchecked (borrowFromCompound E (createDeFiIntegrator s) asset amount) s
     ''0x9c4ec768c28520B50860ea7a15bd7213a9fF58bf'' (encodeBorrowData E asset amount) \<and>
   submitsUnchecked (stakeLPTokens E (createDeFiIntegrator s) pool amount) s
     pool (encodeStakeData E pool amount) \<and>
   submitsUnchecked (claimRewards E (createDeFiIntegrator s) pool) s pool encodeClaimData \<and>
   swapExactInputSingle E this (sp\<lparr>deadline := dl'\<rparr>) = swapExactInputSingle E this sp \<and>
   swapOnAerodrome E this ai ao routes to dl' = swapOnAerodrome E this ai ao routes to dl \<and>
   addLiquidity E this (lp\<lparr>lp_deadline := dl'\<rparr>) = addLiquidity E this lp \<and>
   removeLiquidity E this tokenId liq a0 a1 dl' = removeLiquidity E this tokenId liq a0 a1 dl \<and>
   (parseInt (amountIn sp) = NaN \<longrightarrow>
      encodeSwapData E sp
        = ''0x414bf389'' @ padStart 64 CHR ''0'' (drop 2 (tokenIn sp)) @
          padStart 64 CHR ''0'' (drop 2 (tokenOut sp)) @ nanWord) \<and>
   (parseInt ai = NaN \<longrightarrow>
      encodeAerodromeSwap E ai ao routes to dl
        = ''0x38ed1739'' @ nanWord @ padStart 64 CHR ''0'' (toString16 E (parseInt ao))) \<and>
   (parseInt ao = NaN \<longrightarrow>
      encodeAerodromeSwap E ai ao routes to dl
        = ''0x38ed1739'' @ padStart 64 CHR ''0'' (toString16 E (parseInt ai)) @ nanWord) \<and>
   (parseInt liq = NaN \<longrightarrow>
      encodeRemoveLiquidityData E tokenId liq a0 a1 dl
        = ''0x0c49ccbe'' @ padStart 64 CHR ''0'' (toString16 E tokenId) @ nanWord) \<and>
   (parseInt amount = NaN \<longrightarrow>
      encodeSupplyData E asset amount
        = ''0xa0712d68'' @ padStart 64 CHR ''0'' (drop 2 asset) @ nanWord \<and>
      encodeBorrowData E asset amount
        = ''0xc5ebeaec'' @ padStart 64 CHR ''0'' (drop 2 asset) @ nanWord \<and>
      encodeStakeData E pool amount = ''0xa694fc3a'' @ nanWord)"
proof -
  have requests:
    "submitsUnchecked (swapExactInputSingle E (createDeFiIntegrator s) sp) s
       ''0x2626664c2603336E57B271c5C0b26F421741e481'' (encodeSwapData E sp)"
    "submitsUnchecked (swapOnAerodrome E (createDeFiIntegrator s) ai ao routes to dl) s
       ''0xcF77a3Ba9A5CA399B7c97c74d54e5b1Beb874E43''
       (encodeAerodromeSwap E ai ao routes to dl)"
    "submitsUnchecked (addLiquidity E (createDeFiIntegrator s) lp) s
       ''0x2626664c2603336E57B271c5C0b26F421741e481'' (encodeLiquidityData E lp)"
    "submitsUnchecked (removeLiquidity E (createDeFiIntegrator s) tokenId liq a0 a1 dl) s
       ''0x2626664c2603336E57B271c5C0b26F421741e481''
       (encodeRemoveLiquidityData E tokenId liq a0 a1 dl)"
    "submitsUnchecked (supplyToCompound E (createDeFiIntegrator s) asset amount) s
       ''0x9c4ec768c28520B50860ea7a15bd7213a9fF58bf'' (encodeSupplyData E asset amount)"
    "submitsUnchecked (borrowFromCompound E (createDeFiIntegrator s) asset amount) s
       ''0x9c4ec768c28520B50860ea7a15bd7213a9fF58bf'' (encodeBorrowData E asset amount)"
    "submitsUnchecked (stakeLPTokens E (createDeFiIntegrator s) pool amount) s
       pool (encodeStakeData E pool amount)"
    "submitsUnchecked (claimRewards E (createDeFiIntegrator s) pool) s pool encodeClaimData"
    unfolding operation_defs Let_def createDeFiIntegrator_def
    by (simp_all add: sendAndReturnHash_unchecked)
  have deadlines:
    "swapExactInputSingle E this (sp\<lparr>deadline := dl'\<rparr>) = swapExactInputSingle E this sp"
    "swapOnAerodrome E this ai ao routes to dl' = swapOnAerodrome E this ai ao routes to dl"
    "addLiquidity E this (lp\<lparr>lp_deadline := dl'\<rparr>) = addLiquidity E this lp"
    "removeLiquidity E this tokenId liq a0 a1 dl'
       = removeLiquidity E this tokenId liq a0 a1 dl"
    by (simp_all add: operation_defs encoder_defs)
  have words:
    "parseInt (amountIn sp) = NaN \<Longrightarrow>
       encodeSwapData E sp
         = ''0x414bf389'' @ padStart 64 CHR ''0'' (drop 2 (tokenIn sp)) @
           padStart 64 CHR ''0'' (drop 2 (tokenOut sp)) @ nanWord"
    "parseInt ai = NaN \<Longrightarrow>
       encodeAerodromeSwap E ai ao routes to dl
         = ''0x38ed1739'' @ nanWord @ padStart 64 CHR ''0'' (toString16 E (parseInt ao))"
    "parseInt ao = NaN \<Longrightarrow>
       encodeAerodromeSwap E ai ao routes to dl
         = ''0x38ed1739'' @ padStart 64 CHR ''0'' (toString16 E (parseInt ai)) @ nanWord"
    "parseInt liq = NaN \<Longrightarrow>
       encodeRemoveLiquidityData E tokenId liq a0 a1 dl
         = ''0x0c49ccbe'' @ padStart 64 CHR ''0'' (toString16 E tokenId) @ nanWord"
    "parseInt amount = NaN \<Longrightarrow>
       encodeSupplyData E asset amount
         = ''0xa0712d68'' @ padStart 64 CHR ''0'' (drop 2 asset) @ nanWord"
    "parseInt amount = NaN \<Longrightarrow>
       encodeBorrowData E asset amount
         = ''0xc5ebeaec'' @ padStart 64 CHR ''0'' (drop 2 asset) @ nanWord"
    "parseInt amount = NaN \<Longrightarrow> encodeStakeData E pool amount = ''0xa694fc3a'' @ nanWord"
    by (simp_all add: encoder_defs nan_word)
  from requests deadlines words show ?thesis by blast
qed

text \<open>Witness: a borrow of \<^verbatim>\<open>-5\<close> makes its request; the deadline of a removal does
  not count; the amount \<^verbatim>\<open>abc\<close> does not parse and a supply of it is encoded with
  the \<^verbatim>\<open>NaN\<close> word.\<close>

theorem operations_submit_unchecked_witness:
  "snd (borrowFromCompound plainEngine (createDeFiIntegrator mockTransport)
          ''0x833589fCD6eDb6E08f4c7C32D4f71b54bdA02913'' ''abc'')
     = [SendTransaction ''0x9c4ec768c28520B50860ea7a15bd7213a9fF58bf'' ''0''
          (encodeBorrowData plainEngine ''0x833589fCD6eDb6E08f4c7C32D4f71b54bdA02913''
             ''abc'')] \<and>
   removeLiquidity plainEngine (createDeFiIntegrator mockTransport) (Fin 12345)
       ''500000000000000000'' ''475000000000000000'' ''475000000'' (Fin 0)
     = removeLiquidity plainEngine (createDeFiIntegrator mockTransport) (Fin 12345)
         ''500000000000000000'' ''475000000000000000'' ''475000000'' (Fin 1900000000) \<and>
   parseInt ''abc'' = NaN \<and>
   encodeSupplyData plainEngine ''0x833589fCD6eDb6E08f4c7C32D4f71b54bdA02913'' ''abc''
     = ''0xa0712d68'' @
       ''000000000000000000000000833589fCD6eDb6E08f4c7C32D4f71b54bdA02913'' @
       ''0000000000000000000000000000000000000000000000000000000000000NaN''"
proof -
  have nan: "parseInt ''abc'' = NaN"
    by (simp add: js_eval)
  from operations_submit_unchecked
         [where s = mockTransport and E = plainEngine
            and asset = "''0x833589fCD6eDb6E08f4c7C32D4f71b54bdA02913''"
            and amount = "''abc''" and this = "createDeFiIntegrator mockTransport"
            and tokenId = "Fin 12345" and liq = "''500000000000000000''"
            and ?a0.0 = "''475000000000000000''" and ?a1.0 = "''475000000''"
            and dl = "Fin 1900000000" and dl' = "Fin 0"]
       nan
  show ?thesis
    by (simp add: submitsUnchecked_def nanWord_def padStart_def padding_unfold)
qed

text \<open>Counterexample to C2 as stated: a swap whose amount is \<^verbatim>\<open>abc\<close> and whose
  deadline is 0 is sent and succeeds.\<close>

theorem no_validation_counterexample:
  "\<not> spec_nonNegativeInteger ''abc'' \<and>
   swapExactInputSingle plainEngine (createDeFiIntegrator mockTransport)
       \<lparr>tokenIn = ''0xA0b86a33E6417c8f2c8B758B2d7D2E4C2F2e2e2e'',
        tokenOut = ''0x833589fCD6eDb6E08f4c7C32D4f71b54bdA02913'',
        amountIn = ''abc'', amountOutMinimum = ''990000000'', sqrtPriceLimitX96 = None,
        recipient = ''0x1234567890123456789012345678901234567890'', deadline = Fin 0\<rparr>
     = (Inr ''0x1234567890abcdef'',
        [SendTransaction ''0x2626664c2603336E57B271c5C0b26F421741e481'' ''0''
           (''0x414bf389'' @
            ''000000000000000000000000A0b86a33E6417c8f2c8B758B2d7D2E4C2F2e2e2e'' @
            ''000000000000000000000000833589fCD6eDb6E08f4c7C32D4f71b54bdA02913'' @
            ''0000000000000000000000000000000000000000000000000000000000000NaN'')])"
  by (simp add: operation_defs createDeFiIntegrator_def sendAndReturnHash_def
      mockTransport_def encodeSwapData_def spec_nonNegativeInteger_def js_eval)

text \<open>
  C3. For each of the eight encoders, two calls with identical inputs give identical
  payloads. The encoders are private: they run inside the operations, and a payload
  is what an operation sends. So take two calls of an operation with the same inputs,
  made on any two integrators, whose transports may answer differently and whose
  addresses may differ (another instance, another moment, another network answer):
  the payloads sent are the same.
\<close>

theorem payloads_deterministic:
  "map payloadOf (snd (swapExactInputSingle E this sp))
     = map payloadOf (snd (swapExactInputSingle E this' sp)) \<and>
   map payloadOf (snd (swapOnAerodrome E this ai ao routes to dl))
     = map payloadOf (snd (swapOnAerodrome E this' ai ao routes to dl)) \<and>
   map payloadOf (snd (addLiquidity E this lp))
     = map payloadOf (snd (addLiquidity E this' lp)) \<and>
   map payloadOf (snd (removeLiquidity E this tokenId liq a0 a1 dl'))
     = map payloadOf (snd (removeLiquidity E this' tokenId liq a0 a1 dl')) \<and>
   map payloadOf (snd (supplyToCompound E this asset amount))
     = map payloadOf (snd (supplyToCompound E this' asset amount)) \<and>
   map payloadOf (snd (borrowFromCompound E this asset' amount'))
     = map payloadOf (snd (borrowFromCompound E this' asset' amount')) \<and>
   map payloadOf (snd (stakeLPTokens E this pool staked))
     = map payloadOf (snd (stakeLPTokens E this' pool staked)) \<and>
   map payloadOf (snd (claimRewards E this pool'))
     = map payloadOf (snd (claimRewards E this' pool'))"
  by (simp add: operation_payloads)

text \<open>Witness: the supply of 1000000000 units of USDC, once on the integrator of the
  test suite and once on one with a failing transport and other addresses.\<close>

theorem payloads_deterministic_witness:
  "map payloadOf
     (snd (supplyToCompound plainEngine (createDeFiIntegrator mockTransport)
             ''0x833589fCD6eDb6E08f4c7C32D4f71b54bdA02913'' ''1000000000''))
   = map payloadOf
       (snd (supplyToCompound plainEngine
               \<lparr>sdk = failingTransport, uniswapV3Router = ''0x01'', aerodromeRouter = ''0x02'',
                compoundComet = ''0x03''\<rparr>
               ''0x833589fCD6eDb6E08f4c7C32D4f71b54bdA02913'' ''1000000000'')) \<and>
   map payloadOf
     (snd (supplyToCompound plainEngine (createDeFiIntegrator mockTransport)
             ''0x833589fCD6eDb6E08f4c7C32D4f71b54bdA02913'' ''1000000000''))
   = [''0xa0712d68'' @
      ''000000000000000000000000833589fCD6eDb6E08f4c7C32D4f71b54bdA02913'' @
      ''000000000000000000000000000000000000000000000000000000003b9aca00'']"
proof -
  have sent: "map payloadOf
     (snd (supplyToCompound plainEngine (createDeFiIntegrator mockTransport)
             ''0x833589fCD6eDb6E08f4c7C32D4f71b54bdA02913'' ''1000000000''))
   = [''0xa0712d68'' @
      ''000000000000000000000000833589fCD6eDb6E08f4c7C32D4f71b54bdA02913'' @
      ''000000000000000000000000000000000000000000000000000000003b9aca00'']"
    by (simp add: operation_payloads encodeSupplyData_def js_eval)
  from payloads_deterministic
         [where E = plainEngine and this = "createDeFiIntegrator mockTransport"
            and this' = "\<lparr>sdk = failingTransport, uniswapV3Router = ''0x01'',
                            aerodromeRouter = ''0x02'', compoundComet = ''0x03''\<rparr>"
            and asset = "''0x833589fCD6eDb6E08f4c7C32D4f71b54bdA02913''"
            and amount = "''1000000000''"]
       sent
  show ?thesis by simp
qed

text \<open>
  C4. On an SDK constructed without a private key, \<^verbatim>\<open>swapTokens\<close>,
  \<^verbatim>\<open>addLiquidity\<close> and \<^verbatim>\<open>bridgeToBase\<close> fail for every parameter value with the
  signer-required error, and make no request. The error is
  \<^verbatim>\<open>new Error('Signer required for transactions')\<close>, the one the specification
  calls \<^verbatim>\<open>NoSignerError\<close>. Without a key the constructor makes no wallet, so it
  succeeds whatever the wallet constructor accepts.
\<close>

theorem no_signer_fails_without_network:
  "\<exists>this. newBaseSDK newWallet cfg None = Inr this \<and>
     swapTokens this sp = (Inl (Error ''Signer required for transactions''), []) \<and>
     sdk_addLiquidity this al = (Inl (Error ''Signer required for transactions''), []) \<and>
     bridgeToBase this br = (Inl (Error ''Signer required for transactions''), [])"
  by (simp add: swapTokens_def sdk_addLiquidity_def bridgeToBase_def newBaseSDK_def)

text \<open>Witness: the SDK of \<^verbatim>\<open>createBaseSDK()\<close>, asked for the swap of the test
  suite.\<close>

theorem no_signer_fails_without_network_witness:
  "\<exists>this. createBaseSDK anyKeyWallet None = Inr this \<and>
     swapTokens this
       \<lparr>st_tokenIn = ''0xA0b86a33E6417c8f2c8B758B2d7D2E4C2F2e2e2e'',
        st_tokenOut = ''0x833589fCD6eDb6E08f4c7C32D4f71b54bdA02913'',
        st_amountIn = ''1000000000000000000'', slippage = Fin (1 / 2), st_deadline = None\<rparr>
     = (Inl (Error ''Signer required for transactions''), [])"
  using no_signer_fails_without_network
          [where newWallet = anyKeyWallet
             and cfg = "\<lparr>rpcUrl = ''https://mainnet.base.org'', chainId = 8453,
                          explorerUrl = ''https://basescan.org'',
                          multicallAddress = ''0xcA11bde05977b3631167028862bE2a173976CA11''\<rparr>"
             and sp = "\<lparr>st_tokenIn = ''0xA0b86a33E6417c8f2c8B758B2d7D2E4C2F2e2e2e'',
                         st_tokenOut = ''0x833589fCD6eDb6E08f4c7C32D4f71b54bdA02913'',
                         st_amountIn = ''1000000000000000000'', slippage = Fin (1 / 2),
                         st_deadline = None\<rparr>"]
  by (auto simp: createBaseSDK_def)

text \<open>
  C5. The claim: for a non-empty list, the risk score is the mean over the positions
  of an APR tier (below 10: 1 point, 10 to 20: 2 points, above 20: 3 points) plus a
  protocol class (lending 1, exchange 2, others 3), capped at 10; one position with
  APR 25 on Uniswap V3 scores 5.

  The code compares with \<^verbatim>\<open>apr > 20\<close> and \<^verbatim>\<open>apr > 10\<close>, so an APR of exactly 10
  is in the lowest tier, and it tells protocols apart by name, not by class. What
  holds: for a non-empty list the score is the mean of \<^term>\<open>contribution\<close> (the
  double nearest to it, the division being one of doubles), capped at 10, and the
  position of the claim scores 5.
\<close>

theorem calculateRiskScore_mean:
  "(ps \<noteq> [] \<longrightarrow> calculateRiskScore ps = Math_min (fl (meanContribution ps)) (Fin 10)) \<and>
   calculateRiskScore [\<lparr>protocol = ''Uniswap V3'', apr = Fin 25\<rparr>] = Fin 5"
proof -
  have "calculateRiskScore ps = Math_min (fl (meanContribution ps)) (Fin 10)" if "ps \<noteq> []"
    using that by (simp add: calculateRiskScore_def foldl_riskStep meanContribution_def)
  moreover have "calculateRiskScore [\<lparr>protocol = ''Uniswap V3'', apr = Fin 25\<rparr>] = Fin 5"
    by (simp add: calculateRiskScore_def riskStep_def js_eval)
  ultimately show ?thesis by blast
qed

text \<open>Witness: Aerodrome at 12 (2 + 3 points) and Compound V3 at 10 (1 + 1 points)
  have the mean 7/2.\<close>

theorem calculateRiskScore_mean_witness:
  "[\<lparr>protocol = ''Aerodrome'', apr = Fin 12\<rparr>, \<lparr>protocol = ''Compound V3'', apr = Fin 10\<rparr>] \<noteq> [] \<and>
   calculateRiskScore
     [\<lparr>protocol = ''Aerodrome'', apr = Fin 12\<rparr>, \<lparr>protocol = ''Compound V3'', apr = Fin 10\<rparr>]
     = Fin (7 / 2)"
  using calculateRiskScore_mean
          [of "[\<lparr>protocol = ''Aerodrome'', apr = Fin 12\<rparr>,
                \<lparr>protocol = ''Compound V3'', apr = Fin 10\<rparr>]"]
  by (simp add: meanContribution_def contribution_def protocolPoints_def js_eval)

text \<open>Counterexample to C5 as stated: Uniswap V3 at an APR of exactly 10 scores 3
  where the claim's tiers give 4, and Aerodrome, an exchange of the registry, at an
  APR of 5 scores 4 where the claim's classes give 3.\<close>

theorem calculateRiskScore_tiers_counterexample:
  "calculateRiskScore [\<lparr>protocol = ''Uniswap V3'', apr = Fin 10\<rparr>] = Fin 3 \<and>
   spec_riskScore [\<lparr>protocol = ''Uniswap V3'', apr = Fin 10\<rparr>] = 4 \<and>
   calculateRiskScore [\<lparr>protocol = ''Aerodrome'', apr = Fin 5\<rparr>] = Fin 4 \<and>
   spec_riskScore [\<lparr>protocol = ''Aerodrome'', apr = Fin 5\<rparr>] = 3"
  by (simp add: calculateRiskScore_def riskStep_def spec_riskScore_def spec_aprPoints_def
      spec_classPoints_def PROTOCOLS_def js_eval)

text \<open>
  C6. The claim: the risk score of the empty list is 0, the empty case being treated
  apart. The code has no such case: it divides 0 by the length 0, and the score of
  the empty list is \<^verbatim>\<open>NaN\<close>.
\<close>

theorem calculateRiskScore_empty_NaN: "calculateRiskScore [] = NaN"
  by (simp add: calculateRiskScore_def)

text \<open>
  C7. The claim: the portfolio balance returns the total of the values and each
  share as value / total * 100, with all shares 0 when the total is 0, and a total of
  0 with an empty breakdown for the empty list. The code divides by the total
  whatever it is: one protocol whose balance is \<^verbatim>\<open>0\<close> has the share \<^verbatim>\<open>NaN\<close>.
\<close>

theorem getPortfolioBalance_zero_total_NaN:
  "getPortfolioBalance (\<lambda>user p. Some ''0'') ''0x1234567890123456789012345678901234567890''
     [''Uniswap V3'']
   = Some \<lparr>totalValue = ''0'',
           breakdown = [\<lparr>protocol = ''Uniswap V3'', value = ''0'', percentage = NaN\<rparr>]\<rparr>"
  by (simp add: getPortfolioBalance_def withTotal_def withBreakdown_def sumBalances_def
      js_eval)

text \<open>
  C8. For every \<open>token0\<close>, \<open>token1\<close> and \<open>fee\<close> (and every random draw),
  \<^verbatim>\<open>getPoolInfo\<close> returns a record whose \<open>token0\<close> is the first input, whose
  \<open>token1\<close> is the second and whose \<open>fee\<close> is the fee given.
\<close>

theorem getPoolInfo_echo:
  "token0 (getPoolInfo rnd t0 t1 f) = t0 \<and>
   token1 (getPoolInfo rnd t0 t1 f) = t1 \<and>
   fee (getPoolInfo rnd t0 t1 f) = f"
  by (simp add: getPoolInfo_def)

text \<open>Witness: the pool of the test suite, fee 3000.\<close>

theorem getPoolInfo_echo_witness:
  "token0 (getPoolInfo ''0.8f3a'' ''0xA0b86a33E6417c8f2c8B758B2d7D2E4C2F2e2e2e''
             ''0x833589fCD6eDb6E08f4c7C32D4f71b54bdA02913'' (Fin 3000))
     = ''0xA0b86a33E6417c8f2c8B758B2d7D2E4C2F2e2e2e'' \<and>
   fee (getPoolInfo ''0.8f3a'' ''0xA0b86a33E6417c8f2c8B758B2d7D2E4C2F2e2e2e''
          ''0x833589fCD6eDb6E08f4c7C32D4f71b54bdA02913'' (Fin 3000))
     = Fin 3000"
  using getPoolInfo_echo
          [of "''0.8f3a''" "''0xA0b86a33E6417c8f2c8B758B2d7D2E4C2F2e2e2e''"
             "''0x833589fCD6eDb6E08f4c7C32D4f71b54bdA02913''" "Fin 3000"]
  by simp

text \<open>
  C9. The claim: in every portfolio the analytics functions produce, the total
  equals the sum of the values of the breakdown.

  \<^verbatim>\<open>getPortfolioBalance\<close> reads each value with \<^verbatim>\<open>parseFloat\<close> and adds doubles,
  so the total can differ from the sum of the values as they are written. What holds:
  the total is the text (\<^verbatim>\<open>toString\<close>) of the sum the code computes, the values
  read by \<^verbatim>\<open>parseFloat\<close> and added in list order from 0 in double arithmetic; this
  for \<^verbatim>\<open>getPortfolioBalance\<close>, whatever the balances read, and for the fixed
  portfolio of \<^verbatim>\<open>getPortfolioValue\<close>, whose total is the exact sum as well.
\<close>

theorem snapshot_total_is_text_of_sum:
  "(getPortfolioBalance read user protocols = Some s \<longrightarrow>
      totalValue s = numberToString (sumOfValues (breakdown s))) \<and>
   totalValue (getPortfolioValue user')
     = numberToString (sumOfValues (breakdown (getPortfolioValue user'))) \<and>
   exactValue (totalValue (getPortfolioValue user'))
     = Some (spec_exactSum (breakdown (getPortfolioValue user')))"
proof -
  have "totalValue (getPortfolioValue user')
          = numberToString (sumOfValues (breakdown (getPortfolioValue user')))"
    by (simp add: getPortfolioValue_def sumOfValues_def js_eval)
  moreover have "exactValue (totalValue (getPortfolioValue user'))
          = Some (spec_exactSum (breakdown (getPortfolioValue user')))"
    by (simp add: getPortfolioValue_def spec_exactSum_def exactValue_def js_eval)
  ultimately show ?thesis
    by (simp add: getPortfolioBalance_total)
qed

text \<open>Witness: balances of 5 and 3 (times ten to the 18) make a total of 8, with
  shares of 62.5 and 37.5.\<close>

theorem snapshot_total_is_text_of_sum_witness:
  "getPortfolioBalance
     (\<lambda>user p. Some (if p = ''Uniswap V3'' then ''5000000000000000000''
                      else ''3000000000000000000''))
     ''0x1234567890123456789012345678901234567890'' [''Uniswap V3'', ''Aerodrome'']
   = Some \<lparr>totalValue = ''8000000000000000000'',
           breakdown =
             [\<lparr>protocol = ''Uniswap V3'', value = ''5000000000000000000'',
               percentage = Fin (125 / 2)\<rparr>,
              \<lparr>protocol = ''Aerodrome'', value = ''3000000000000000000'',
               percentage = Fin (75 / 2)\<rparr>]\<rparr> \<and>
   ''8000000000000000000''
   = numberToString
       (sumOfValues
          [\<lparr>protocol = ''Uniswap V3'', value = ''5000000000000000000'',
            percentage = Fin (125 / 2)\<rparr>,
           \<lparr>protocol = ''Aerodrome'', value = ''3000000000000000000'',
            percentage = Fin (75 / 2)\<rparr>])"
proof -
  have run: "getPortfolioBalance
     (\<lambda>user p. Some (if p = ''Uniswap V3'' then ''5000000000000000000''
                      else ''3000000000000000000''))
     ''0x1234567890123456789012345678901234567890'' [''Uniswap V3'', ''Aerodrome'']
   = Some \<lparr>totalValue = ''8000000000000000000'',
           breakdown =
             [\<lparr>protocol = ''Uniswap V3'', value = ''5000000000000000000'',
               percentage = Fin (125 / 2)\<rparr>,
              \<lparr>protocol = ''Aerodrome'', value = ''3000000000000000000'',
               percentage = Fin (75 / 2)\<rparr>]\<rparr>"
    by (simp add: getPortfolioBalance_def withTotal_def withBreakdown_def sumBalances_def
        js_eval)
  from snapshot_total_is_text_of_sum [THEN conjunct1, rule_format, OF run] run
  show ?thesis by simp
qed

text \<open>Counterexample to C9 as stated: one balance of 1234567890123456789 gives the
  total 1234567890123456800, which is not that value.\<close>

theorem snapshot_total_not_exact_counterexample:
  "getPortfolioBalance (\<lambda>user p. Some ''1234567890123456789'')
     ''0x1234567890123456789012345678901234567890'' [''Uniswap V3'']
   = Some \<lparr>totalValue = ''1234567890123456800'',
           breakdown =
             [\<lparr>protocol = ''Uniswap V3'', value = ''1234567890123456789'',
               percentage = Fin 100\<rparr>]\<rparr> \<and>
   exactValue ''1234567890123456800'' = Some 1234567890123456800 \<and>
   spec_exactSum
     [\<lparr>protocol = ''Uniswap V3'', value = ''1234567890123456789'', percentage = Fin 100\<rparr>]
   = 1234567890123456789"
  by (simp add: getPortfolioBalance_def withTotal_def withBreakdown_def sumBalances_def
      spec_exactSum_def exactValue_def js_eval)

text \<open>
  C10. The payload of \<^verbatim>\<open>encodeSwapData\<close> depends on \<open>tokenIn\<close>, \<open>tokenOut\<close>
  and \<open>amountIn\<close> only: two parameter records that agree on these three fields have
  the same payload, however they differ in \<open>amountOutMinimum\<close>,
  \<open>sqrtPriceLimitX96\<close>, \<open>recipient\<close> and \<open>deadline\<close>.
\<close>

theorem encodeSwapData_reads_three_fields:
  "tokenIn p = tokenIn q \<Longrightarrow> tokenOut p = tokenOut q \<Longrightarrow> amountIn p = amountIn q
     \<Longrightarrow> encodeSwapData E p = encodeSwapData E q"
  by (simp add: encodeSwapData_def)

text \<open>Witness: two swaps of the same amount between the same tokens, with
  different minimum, price limit, recipient and deadline.\<close>

theorem encodeSwapData_reads_three_fields_witness:
  "encodeSwapData plainEngine
     \<lparr>tokenIn = ''0xA0b86a33E6417c8f2c8B758B2d7D2E4C2F2e2e2e'',
      tokenOut = ''0x833589fCD6eDb6E08f4c7C32D4f71b54bdA02913'',
      amountIn = ''1000000000000000000'', amountOutMinimum = ''990000000'',
      sqrtPriceLimitX96 = None,
      recipient = ''0x1234567890123456789012345678901234567890'',
      deadline = Fin 1900000000\<rparr>
   = encodeSwapData plainEngine
     \<lparr>tokenIn = ''0xA0b86a33E6417c8f2c8B758B2d7D2E4C2F2e2e2e'',
      tokenOut = ''0x833589fCD6eDb6E08f4c7C32D4f71b54bdA02913'',
      amountIn = ''1000000000000000000'', amountOutMinimum = ''0'',
      sqrtPriceLimitX96 = Some ''79228162514264337593543950336'',
      recipient = ''0x0987654321098765432109876543210987654321'',
      deadline = NaN\<rparr>"
  by (rule encodeSwapData_reads_three_fields) simp_all

end
